theory Spec2Isabelle
  imports Main
begin

section \<open>ftl::maybe (src/maybe.h)\<close>

text \<open>
  What can stop an operation: the \<^verbatim>\<open>std::logic_error\<close> thrown by the dereference
  operators (with its message), an exception thrown by a special member of the element
  type \<^verbatim>\<open>A\<close>, and undefined behaviour (a read or a destructor call on storage that
  holds no live object, or a reference to no object).
\<close>

datatype error = Logic_error string | Alt_exception | Undefined

text \<open>
  The anonymous union \<^verbatim>\<open>union { char dummy[sizeof(value_type)]; value_type val; }\<close>:
  raw bytes until a \<^verbatim>\<open>value_type\<close> is constructed in it by placement new, and raw
  bytes again once \<^verbatim>\<open>val.~value_type()\<close> has run.
\<close>

datatype 'a slot = Raw | Live 'a

record 'a maybe =
  val :: "'a slot"
  isValid :: bool

text \<open>
  The special members of the template parameter \<^verbatim>\<open>A\<close> that \<^verbatim>\<open>maybe<A>\<close> calls:
  the copy constructor (which may throw), the move constructor (which may throw, and
  leaves a moved-from value in its argument), and \<^verbatim>\<open>operator==\<close>.
\<close>

record 'a value_type =
  copy_ctor :: "'a \<Rightarrow> error + 'a"
  move_ctor :: "'a \<Rightarrow> (error + 'a) \<times> 'a"
  equals :: "'a \<Rightarrow> 'a \<Rightarrow> bool"

text \<open>
  Objects live in a store, so that \<^verbatim>\<open>this == &m\<close> can be decided and the effect of a
  member function on \<^verbatim>\<open>*this\<close> and on its argument can be read off afterwards.
\<close>

type_synonym addr = nat
type_synonym 'a store = "addr \<rightharpoonup> 'a maybe"

text \<open>\<^verbatim>\<open>constexpr maybe() noexcept {}\<close>, with the member initialiser \<^verbatim>\<open>isValid = false\<close>.\<close>

definition nothing :: "'a maybe" where
  "nothing = \<lparr>val = Raw, isValid = False\<rparr>"

text \<open>\<^verbatim>\<open>explicit constexpr maybe(const value_type& v) : isValid(true), val(v) {}\<close>\<close>

definition maybe_of :: "'a value_type \<Rightarrow> 'a \<Rightarrow> error + 'a maybe" where
  "maybe_of A v =
     (case copy_ctor A v of
        Inl e \<Rightarrow> Inl e
      | Inr v' \<Rightarrow> Inr \<lparr>val = Live v', isValid = True\<rparr>)"

text \<open>\<^verbatim>\<open>isNothing()\<close>, \<^verbatim>\<open>isValue()\<close> and \<^verbatim>\<open>operator bool()\<close>.\<close>

definition isNothing :: "'a maybe \<Rightarrow> bool" where
  "isNothing m = (\<not> isValid m)"

definition isValue :: "'a maybe \<Rightarrow> bool" where
  "isValue m = isValid m"

definition operator_bool :: "'a maybe \<Rightarrow> bool" where
  "operator_bool m = isValue m"

text \<open>
  A reference (or pointer) handed out by the dereference operators names the \<^verbatim>\<open>val\<close>
  member of the object at an address; \<open>load\<close> reads through it.
\<close>

datatype reference = Val_of addr

fun load :: "'a store \<Rightarrow> reference \<Rightarrow> error + 'a" where
  "load s (Val_of a) =
     (case s a of
        None \<Rightarrow> Inl Undefined
      | Some m \<Rightarrow> (case val m of Raw \<Rightarrow> Inl Undefined | Live v \<Rightarrow> Inr v))"

text \<open>
  \<^verbatim>\<open>operator*\<close> (both overloads have the same body):
  \<^verbatim>\<open>if(!isValid) throw std::logic_error("Attempting to read the value of Nothing."); return val;\<close>
  The result is the reference or the exception, together with the store afterwards.
\<close>

definition operator_star :: "addr \<Rightarrow> 'a store \<Rightarrow> (error + reference) \<times> 'a store" where
  "operator_star this s =
     (case s this of
        None \<Rightarrow> (Inl Undefined, s)
      | Some m \<Rightarrow>
          if \<not> isValid m
          then (Inl (Logic_error ''Attempting to read the value of Nothing.''), s)
          else (Inr (Val_of this), s))"

text \<open>
  \<^verbatim>\<open>operator->\<close> (both overloads):
  \<^verbatim>\<open>if(!isValid) throw std::logic_error("Attempting to read teh value of Nothing."); return &val;\<close>
\<close>

definition operator_arrow :: "addr \<Rightarrow> 'a store \<Rightarrow> (error + reference) \<times> 'a store" where
  "operator_arrow this s =
     (case s this of
        None \<Rightarrow> (Inl Undefined, s)
      | Some m \<Rightarrow>
          if \<not> isValid m
          then (Inl (Logic_error ''Attempting to read teh value of Nothing.''), s)
          else (Inr (Val_of this), s))"

text \<open>Whether an exception is a \<^verbatim>\<open>std::logic_error\<close>.\<close>

fun is_logic_error :: "error \<Rightarrow> bool" where
  "is_logic_error (Logic_error msg) = True"
| "is_logic_error e = False"

text \<open>
  \<^verbatim>\<open>if(isValid) { val.~value_type(); }\<close>, the first step of both assignment operators.
  Running the destructor on storage without a live object is undefined.
\<close>

definition destroy_if_valid :: "'a maybe \<Rightarrow> error + 'a maybe" where
  "destroy_if_valid d =
     (if isValid d
      then (case val d of Raw \<Rightarrow> Inl Undefined | Live v \<Rightarrow> Inr (d\<lparr>val := Raw\<rparr>))
      else Inr d)"

text \<open>
  \<^verbatim>\<open>maybe(maybe&& m) : isValid(m.isValid)
  { if(isValid) { new (&val) value_type(std::move(m.val)); m.isValid = false; } }\<close>
  The new object is built at \<open>this\<close>, storage that holds no object yet. The result is
  the exception that propagates, if any, and the store afterwards; when the element's
  move constructor throws, the new object does not come into existence.
\<close>

definition move_construct ::
  "'a value_type \<Rightarrow> addr \<Rightarrow> addr \<Rightarrow> 'a store \<Rightarrow> error option \<times> 'a store" where
  "move_construct A this m s =
     (case s m of
        None \<Rightarrow> (Some Undefined, s)
      | Some src \<Rightarrow>
          (case s this of
             Some d \<Rightarrow> (Some Undefined, s)
           | None \<Rightarrow>
               if isValid src
               then (case val src of
                       Raw \<Rightarrow> (Some Undefined, s)
                     | Live v \<Rightarrow>
                         (case move_ctor A v of
                            (Inl e, r) \<Rightarrow> (Some e, s(m \<mapsto> src\<lparr>val := Live r\<rparr>))
                          | (Inr v', r) \<Rightarrow>
                              (None, s(this \<mapsto> \<lparr>val = Live v', isValid = True\<rparr>,
                                       m \<mapsto> src\<lparr>val := Live r, isValid := False\<rparr>))))
               else (None, s(this \<mapsto> \<lparr>val = Raw, isValid = False\<rparr>))))"

text \<open>
  \<^verbatim>\<open>const maybe& operator= (const maybe& m) {
    if(this == &m) return;
    if(isValid) { val.~value_type(); }
    isValid = m.isValid;
    if(isValid) { new (&val) value_type(m.val); }
    return *this; }\<close>
  The flag is written before the placement new runs, so the store returned with an
  exception of the copy constructor is the one in which \<open>this\<close> already carries the
  source's flag. The result is the exception that propagates, if any, and the store
  afterwards; the reference returned (none by the bare \<^verbatim>\<open>return;\<close> of the self-assignment
  branch) is not part of it.
\<close>

definition copy_assign ::
  "'a value_type \<Rightarrow> addr \<Rightarrow> addr \<Rightarrow> 'a store \<Rightarrow> error option \<times> 'a store" where
  "copy_assign A this m s =
     (if this = m then (None, s)
      else
        (case s this of
           None \<Rightarrow> (Some Undefined, s)
         | Some d \<Rightarrow>
             (case s m of
                None \<Rightarrow> (Some Undefined, s)
              | Some src \<Rightarrow>
                 (case destroy_if_valid d of
                    Inl e \<Rightarrow> (Some e, s)
                  | Inr d1 \<Rightarrow>
                      let d2 = d1\<lparr>isValid := isValid src\<rparr> in
                      if isValid d2
                      then (case val src of
                              Raw \<Rightarrow> (Some Undefined, s(this \<mapsto> d2))
                            | Live v \<Rightarrow>
                                (case copy_ctor A v of
                                   Inl e \<Rightarrow> (Some e, s(this \<mapsto> d2))
                                 | Inr v' \<Rightarrow> (None, s(this \<mapsto> d2\<lparr>val := Live v'\<rparr>))))
                      else (None, s(this \<mapsto> d2))))))"

text \<open>
  \<^verbatim>\<open>const maybe& operator= (maybe&& m) {
    if(this == &m) return;
    if(isValid) { val.~value_type(); }
    isValid = m.isValid;
    if(isValid) { new (&val) value_type(std::move(m.val)); m.isValid = false; }
    return *this; }\<close>
\<close>

definition move_assign ::
  "'a value_type \<Rightarrow> addr \<Rightarrow> addr \<Rightarrow> 'a store \<Rightarrow> error option \<times> 'a store" where
  "move_assign A this m s =
     (if this = m then (None, s)
      else
        (case s this of
           None \<Rightarrow> (Some Undefined, s)
         | Some d \<Rightarrow>
             (case s m of
                None \<Rightarrow> (Some Undefined, s)
              | Some src \<Rightarrow>
                 (case destroy_if_valid d of
                    Inl e \<Rightarrow> (Some e, s)
                  | Inr d1 \<Rightarrow>
                      let d2 = d1\<lparr>isValid := isValid src\<rparr> in
                      if isValid d2
                      then (case val src of
                              Raw \<Rightarrow> (Some Undefined, s(this \<mapsto> d2))
                            | Live v \<Rightarrow>
                                (case move_ctor A v of
                                   (Inl e, r) \<Rightarrow>
                                     (Some e, s(this \<mapsto> d2, m \<mapsto> src\<lparr>val := Live r\<rparr>))
                                 | (Inr v', r) \<Rightarrow>
                                     (None, s(this \<mapsto> d2\<lparr>val := Live v'\<rparr>,
                                              m \<mapsto> src\<lparr>val := Live r, isValid := False\<rparr>))))
                      else (None, s(this \<mapsto> d2))))))"

text \<open>
  \<^verbatim>\<open>bool operator== (const maybe<A>& m1, const maybe<A>& m2) {
    if(m1 && m2) { return *m1 == *m2; }
    else if(!m1 && !m2) { return true; }
    else { return false; } }\<close>
  Both arguments are const references, so the store is only read.
\<close>

definition operator_eq :: "'a value_type \<Rightarrow> addr \<Rightarrow> addr \<Rightarrow> 'a store \<Rightarrow> error + bool" where
  "operator_eq A m1 m2 s =
     (case s m1 of
        None \<Rightarrow> Inl Undefined
      | Some a \<Rightarrow>
          (case s m2 of
             None \<Rightarrow> Inl Undefined
           | Some b \<Rightarrow>
               if operator_bool a \<and> operator_bool b
               then (case fst (operator_star m1 s) of
                       Inl e \<Rightarrow> Inl e
                     | Inr r1 \<Rightarrow>
                         (case fst (operator_star m2 s) of
                            Inl e \<Rightarrow> Inl e
                          | Inr r2 \<Rightarrow>
                              (case load s r1 of
                                 Inl e \<Rightarrow> Inl e
                               | Inr x \<Rightarrow>
                                   (case load s r2 of
                                      Inl e \<Rightarrow> Inl e
                                    | Inr y \<Rightarrow> Inr (equals A x y)))))
               else if \<not> operator_bool a \<and> \<not> operator_bool b then Inr True
               else Inr False))"

text \<open>\<^verbatim>\<open>bool operator!= (const maybe<A>& m1, const maybe<A>& m2) { return !(m1 == m2); }\<close>\<close>

definition operator_neq :: "'a value_type \<Rightarrow> addr \<Rightarrow> addr \<Rightarrow> 'a store \<Rightarrow> error + bool" where
  "operator_neq A m1 m2 s =
     (case operator_eq A m1 m2 s of Inl e \<Rightarrow> Inl e | Inr b \<Rightarrow> Inr (\<not> b))"

text \<open>
  An object is well formed when its flag tells the truth about its storage: a valid
  \<^verbatim>\<open>maybe\<close> has a live value. Every constructor establishes this.
\<close>

definition wf_maybe :: "'a maybe \<Rightarrow> bool" where
  "wf_maybe m = (isValid m \<longrightarrow> (case val m of Raw \<Rightarrow> False | Live v \<Rightarrow> True))"

text \<open>
  An element type for the examples: \<^verbatim>\<open>int\<close>, whose copy and move constructors copy
  the value and never throw.
\<close>

definition int_type :: "int value_type" where
  "int_type = \<lparr>copy_ctor = (\<lambda>v. Inr v), move_ctor = (\<lambda>v. (Inr v, v)), equals = (\<lambda>x y. x = y)\<rparr>"

text \<open>
  An element type whose copy constructor throws during the call under consideration (a
  \<^verbatim>\<open>std::vector\<close> or \<^verbatim>\<open>std::string\<close> whose allocation fails; \<^verbatim>\<open>CopyThrow\<close> of the tests
  throws on every copy).
\<close>

definition copy_throw_type :: "int value_type" where
  "copy_throw_type =
     \<lparr>copy_ctor = (\<lambda>v. Inl Alt_exception), move_ctor = (\<lambda>v. (Inr v, v)),
      equals = (\<lambda>x y. x = y)\<rparr>"

text \<open>Three objects for the examples: two values and one nothing.\<close>

definition store_ex :: "int store" where
  "store_ex =
     [1 \<mapsto> \<lparr>val = Live 5, isValid = True\<rparr>, 2 \<mapsto> nothing,
      3 \<mapsto> \<lparr>val = Live 7, isValid = True\<rparr>]"

text \<open>A nothing at address 1 and a value of the throwing element type at address 2.\<close>

definition store_throw :: "int store" where
  "store_throw = [1 \<mapsto> nothing, 2 \<mapsto> \<lparr>val = Live 7, isValid = True\<rparr>]"

section \<open>Functor instance for unordered maps (include/ftl/unordered-map header)\<close>

text \<open>
  A \<^verbatim>\<open>std::unordered_map<K,T>\<close> is the list of its elements in iteration order (which
  the standard leaves unspecified); the container keeps its keys unique.
\<close>

type_synonym ('k, 't) unordered_map = "('k \<times> 't) list"

definition unique_keys :: "('k, 't) unordered_map \<Rightarrow> bool" where
  "unique_keys m = distinct (map fst m)"

text \<open>
  \<^verbatim>\<open>rm.emplace(k, v)\<close> inserts the element unless the key is already present, in which
  case the container is left as it is.
\<close>

definition emplace :: "'k \<Rightarrow> 't \<Rightarrow> ('k, 't) unordered_map \<Rightarrow> ('k, 't) unordered_map" where
  "emplace k v rm = (case map_of rm k of None \<Rightarrow> rm @ [(k, v)] | Some w \<Rightarrow> rm)"

text \<open>
  \<^verbatim>\<open>m[k] = v\<close>: \<^verbatim>\<open>operator[]\<close> finds the element with key \<open>k\<close>, inserting one when
  there is none, and the value is assigned to it.
\<close>

fun subscript_assign :: "'k \<Rightarrow> 't \<Rightarrow> ('k, 't) unordered_map \<Rightarrow> ('k, 't) unordered_map" where
  "subscript_assign k v [] = [(k, v)]"
| "subscript_assign k v (e # m) =
     (if fst e = k then (fst e, v) # m else e # subscript_assign k v m)"

text \<open>
  \<^verbatim>\<open>static unordered_map<U> map(F&& f, const unordered_map<T>& m) {
    unordered_map<U> rm;
    for(const auto& kv : m) { rm.emplace(kv.first, f(kv.second)); }
    return rm; }\<close>
  The result is the returned map together with \<open>m\<close> as the call leaves it.
\<close>

definition map_const_ref ::
  "('t \<Rightarrow> 'u) \<Rightarrow> ('k, 't) unordered_map \<Rightarrow> ('k, 'u) unordered_map \<times> ('k, 't) unordered_map" where
  "map_const_ref f m = (fold (\<lambda>kv rm. emplace (fst kv) (f (snd kv)) rm) m [], m)"

text \<open>
  The r-value overload for a new value type:
  \<^verbatim>\<open>unordered_map<U> rm;
  for(auto& kv : m) { rm.emplace(std::move(kv.first), f(std::move(kv.second))); }
  return rm;\<close>
  The argument is a temporary, so only the returned map is observable.
\<close>

definition map_rvalue :: "('t \<Rightarrow> 'u) \<Rightarrow> ('k, 't) unordered_map \<Rightarrow> ('k, 'u) unordered_map" where
  "map_rvalue f m = fold (\<lambda>kv rm. emplace (fst kv) (f (snd kv)) rm) m []"

text \<open>
  The overload for endofunctions on temporaries works in place:
  \<^verbatim>\<open>for(auto& kv : m) { m[kv.first] = f(std::move(kv.second)); }
  return m;\<close>
  The loop visits the element positions of \<open>m\<close> in turn and reads each element at the
  moment it is visited.
\<close>

definition map_endo :: "('t \<Rightarrow> 't) \<Rightarrow> ('k, 't) unordered_map \<Rightarrow> ('k, 't) unordered_map" where
  "map_endo f m =
     fold (\<lambda>i m'. subscript_assign (fst (m' ! i)) (f (snd (m' ! i))) m') [0..<length m] m"

text \<open>A map for the examples.\<close>

definition umap_ex :: "(string, int) unordered_map" where
  "umap_ex = [(''a'', 1), (''b'', 2), (''c'', 3)]"

section \<open>The sum-type engine (ftl::sum-type)\<close>

text \<open>
  The header \<^verbatim>\<open>ftl/sum_type.h\<close> that \<^verbatim>\<open>tests/sum_type_tests.cpp\<close> includes is not among
  the sources. The definitions of this section follow the specification's description of
  it; alternative types are compared by name, payloads are taken from one value universe.
\<close>

text \<open>
  Modelled from the spec: the failures of the missing \<^verbatim>\<open>ftl/sum_type.h\<close>. The first four
  are the compile-time errors of section 7 (duplicate alternatives, a type that is not an
  alternative, a match that leaves an alternative unhandled, ambiguous handlers); the
  last marks an instance that breaks the invariant \<open>tag \<in> [0, n)\<close> of section 3.
\<close>

datatype sum_error =
  Duplicate_alternative | Not_an_alternative | Unhandled_alternative | Ambiguous_handler
  | Invalid_tag

text \<open>
  Modelled from the spec: alternative-index resolution of the missing \<^verbatim>\<open>ftl/sum_type.h\<close>,
  "compile-time mapping from a concrete alternative type to its position in the declared
  list".
\<close>

fun index_of :: "'t \<Rightarrow> 't list \<Rightarrow> nat option" where
  "index_of T [] = None"
| "index_of T (U # Us) = (if T = U then Some 0 else map_option Suc (index_of T Us))"

text \<open>
  Modelled from the spec: the instance of the missing \<^verbatim>\<open>ftl/sum_type.h\<close>,
  "\<open>{ tag \<in> [0, n), storage }\<close>", the storage holding the one live alternative.
\<close>

record 'v sum_type =
  tag :: nat
  storage :: 'v

text \<open>
  Modelled from the spec: tag-directed construction of the missing \<^verbatim>\<open>ftl/sum_type.h\<close>
  ("tag + constructor arguments for one alternative"); "duplicate alternatives are
  rejected at definition time".
\<close>

definition construct :: "'t list \<Rightarrow> 't \<Rightarrow> 'v \<Rightarrow> sum_error + 'v sum_type" where
  "construct alts T v =
     (if \<not> distinct alts then Inl Duplicate_alternative
      else (case index_of T alts of
              None \<Rightarrow> Inl Not_an_alternative
            | Some i \<Rightarrow> Inr \<lparr>tag = i, storage = v\<rparr>))"

text \<open>
  Modelled from the spec: \<^verbatim>\<open>is<T>()\<close> of the missing \<^verbatim>\<open>ftl/sum_type.h\<close>, "true iff T is
  currently active": the tag is compared with the index resolved for \<open>T\<close>.
\<close>

definition is_alt :: "'t list \<Rightarrow> 't \<Rightarrow> 'v sum_type \<Rightarrow> sum_error + bool" where
  "is_alt alts T x =
     (if \<not> distinct alts then Inl Duplicate_alternative
      else (case index_of T alts of
              None \<Rightarrow> Inl Not_an_alternative
            | Some i \<Rightarrow> Inr (tag x = i)))"

text \<open>
  Modelled from the spec: the handlers given to \<^verbatim>\<open>match\<close> of the missing
  \<^verbatim>\<open>ftl/sum_type.h\<close>, each "resolved by parameter type": a callable for one alternative, or
  the fallback ("otherwise").
\<close>

datatype 't clause = Case 't | Otherwise

text \<open>
  Modelled from the spec: a helper for the handler resolution of the missing
  \<^verbatim>\<open>ftl/sum_type.h\<close>: the positions at which a clause occurs among the supplied handlers.
\<close>

definition positions :: "'t clause \<Rightarrow> 't clause list \<Rightarrow> nat list" where
  "positions c cs = filter (\<lambda>k. cs ! k = c) [0..<length cs]"

text \<open>
  Modelled from the spec: static handler resolution of the missing \<^verbatim>\<open>ftl/sum_type.h\<close>.
  "Every alternative must be handled explicitly or via fallback"; "an alternative
  matched by more than one handler is a compile-time failure"; the fallback covers "any
  remaining alternative".
\<close>

definition handler_for :: "'t clause list \<Rightarrow> 't \<Rightarrow> sum_error + nat" where
  "handler_for cs T =
     (case positions (Case T) cs of
        [] \<Rightarrow> (case positions Otherwise cs of
                 [] \<Rightarrow> Inl Unhandled_alternative
               | [k] \<Rightarrow> Inr k
               | k # k' # ks \<Rightarrow> Inl Ambiguous_handler)
      | [k] \<Rightarrow> Inr k
      | k # k' # ks \<Rightarrow> Inl Ambiguous_handler)"

text \<open>
  Modelled from the spec: the static coverage check of the missing \<^verbatim>\<open>ftl/sum_type.h\<close>
  ("coverage is statically verified"): the first alternative that the handlers do not
  resolve, if there is one.
\<close>

fun coverage :: "'t clause list \<Rightarrow> 't list \<Rightarrow> sum_error option" where
  "coverage cs [] = None"
| "coverage cs (T # Ts) =
     (case handler_for cs T of Inl e \<Rightarrow> Some e | Inr k \<Rightarrow> coverage cs Ts)"

text \<open>
  Modelled from the spec: \<^verbatim>\<open>match(handlers...)\<close> of the missing \<^verbatim>\<open>ftl/sum_type.h\<close>. "At
  runtime, dispatch invokes exactly the one callable corresponding to the active tag,
  once, returning its result." The result lists the invocations made (the position of
  the handler among the arguments and the payload it received) next to the value
  returned.
\<close>

definition match ::
  "'t list \<Rightarrow> ('t clause \<times> ('v \<Rightarrow> 'r)) list \<Rightarrow> 'v sum_type
     \<Rightarrow> sum_error + (nat \<times> 'v) list \<times> 'r" where
  "match alts hs x =
     (if \<not> distinct alts then Inl Duplicate_alternative
      else (case coverage (map fst hs) alts of
              Some e \<Rightarrow> Inl e
            | None \<Rightarrow>
                if tag x < length alts
                then (case handler_for (map fst hs) (alts ! tag x) of
                        Inl e \<Rightarrow> Inl e
                      | Inr k \<Rightarrow> Inr ([(k, storage x)], snd (hs ! k) (storage x)))
                else Inl Invalid_tag))"

text \<open>
  Modelled from the spec: a complete handler set for the missing \<^verbatim>\<open>ftl/sum_type.h\<close>, "one
  callable per alternative": every alternative has exactly one explicit handler.
\<close>

definition complete_handlers :: "'t list \<Rightarrow> 't clause list \<Rightarrow> bool" where
  "complete_handlers alts cs = list_all (\<lambda>T. length (positions (Case T) cs) = 1) alts"

text \<open>
  The payloads and handlers of \<^verbatim>\<open>tests/sum_type_tests.cpp\<close>: \<^verbatim>\<open>int\<close>, \<^verbatim>\<open>char\<close> and the
  empty structs \<^verbatim>\<open>A\<close>, \<^verbatim>\<open>B\<close>, \<^verbatim>\<open>C\<close>, with
  \<^verbatim>\<open>constexpr bool wasInt(int x) { return x == 5; }\<close> and
  \<^verbatim>\<open>constexpr bool wasNotChar(char) { return false; }\<close>.
\<close>

datatype payload = Int_val int | Char_val char | Empty_struct

fun wasInt :: "payload \<Rightarrow> bool" where
  "wasInt (Int_val x) = (x = 5)"
| "wasInt p = False"

fun wasNotChar :: "payload \<Rightarrow> bool" where
  "wasNotChar p = False"

text \<open>\<^verbatim>\<open>sum_type<int,char> x{type<int>, 5}\<close> and \<^verbatim>\<open>x.match(wasInt, wasNotChar)\<close>.\<close>

definition int_char :: "string list" where
  "int_char = [''int'', ''char'']"

definition int_char_handlers :: "(string clause \<times> (payload \<Rightarrow> bool)) list" where
  "int_char_handlers = [(Case ''int'', wasInt), (Case ''char'', wasNotChar)]"

text \<open>
  \<^verbatim>\<open>sum_type<A,B,C> y{type<B>}\<close> and
  \<^verbatim>\<open>y.match([](const A&){ return 0; }, [](otherwise){ return 1; })\<close>.
\<close>

definition abc :: "string list" where
  "abc = [''A'', ''B'', ''C'']"

definition a_otherwise_handlers :: "(string clause \<times> (payload \<Rightarrow> int)) list" where
  "a_otherwise_handlers = [(Case ''A'', (\<lambda>p. 0)), (Otherwise, (\<lambda>p. 1))]"

text \<open>
  Modelled from the spec: the special members of the alternatives that the missing
  \<^verbatim>\<open>ftl/sum_type.h\<close> calls when an instance is moved ("consumed from each alternative type:
  ... move constructor, ... move-assignment"), selected by the alternative's index. The
  move constructor yields the new value or the exception it throws, and what it leaves
  in its argument; the move-assignment operator yields the exception it throws, if any,
  the assigned-to value afterwards, and what it leaves in its argument.
\<close>

record 'v alternatives =
  alt_move_ctor :: "nat \<Rightarrow> 'v \<Rightarrow> (error + 'v) \<times> 'v"
  alt_move_assign :: "nat \<Rightarrow> 'v \<Rightarrow> 'v \<Rightarrow> error option \<times> 'v \<times> 'v"

text \<open>
  Modelled from the spec: the objects of the missing \<^verbatim>\<open>ftl/sum_type.h\<close> in a store, as the
  \<^verbatim>\<open>maybe\<close> objects above, so that the source of a move can be inspected afterwards.
\<close>

type_synonym 'v sum_store = "addr \<rightharpoonup> 'v sum_type"

text \<open>
  Modelled from the spec: move construction of the missing \<^verbatim>\<open>ftl/sum_type.h\<close> (section
  4.2): "read the source tag, invoke that alternative's [move] constructor into the new
  instance's storage, copy the tag"; "the source's own moved-from state applies (the
  library does not additionally clear it)". When the constructor throws, "the exception
  propagates" and there is no new instance.
\<close>

definition sum_move_construct ::
  "'v alternatives \<Rightarrow> addr \<Rightarrow> addr \<Rightarrow> 'v sum_store \<Rightarrow> error option \<times> 'v sum_store" where
  "sum_move_construct L this m t =
     (case t m of
        None \<Rightarrow> (Some Undefined, t)
      | Some src \<Rightarrow>
          (case t this of
             Some d \<Rightarrow> (Some Undefined, t)
           | None \<Rightarrow>
               (case alt_move_ctor L (tag src) (storage src) of
                  (Inl e, r) \<Rightarrow> (Some e, t(m \<mapsto> src\<lparr>storage := r\<rparr>))
                | (Inr v, r) \<Rightarrow>
                    (None, t(this \<mapsto> \<lparr>tag = tag src, storage = v\<rparr>,
                             m \<mapsto> src\<lparr>storage := r\<rparr>)))))"

text \<open>
  Modelled from the spec: move assignment of the missing \<^verbatim>\<open>ftl/sum_type.h\<close> (section 4.2).
  "Self-assignment is a no-op"; "same tag: perform in-place copy/move-assignment via the
  alternative's own assignment operator"; "different tags: ... fully materializing the
  new value before destroying the old one", so that when the constructor throws the
  destination retains "its ORIGINAL pre-assignment alternative and value".
\<close>

definition sum_move_assign ::
  "'v alternatives \<Rightarrow> addr \<Rightarrow> addr \<Rightarrow> 'v sum_store \<Rightarrow> error option \<times> 'v sum_store" where
  "sum_move_assign L this m t =
     (if this = m then (None, t)
      else
        (case t this of
           None \<Rightarrow> (Some Undefined, t)
         | Some d \<Rightarrow>
             (case t m of
                None \<Rightarrow> (Some Undefined, t)
              | Some src \<Rightarrow>
                  if tag d = tag src
                  then (case alt_move_assign L (tag d) (storage d) (storage src) of
                          (e, v, r) \<Rightarrow>
                            (e, t(this \<mapsto> d\<lparr>storage := v\<rparr>, m \<mapsto> src\<lparr>storage := r\<rparr>)))
                  else (case alt_move_ctor L (tag src) (storage src) of
                          (Inl e, r) \<Rightarrow> (Some e, t(m \<mapsto> src\<lparr>storage := r\<rparr>))
                        | (Inr v, r) \<Rightarrow>
                            (None, t(this \<mapsto> \<lparr>tag = tag src, storage = v\<rparr>,
                                     m \<mapsto> src\<lparr>storage := r\<rparr>))))))"

text \<open>
  The alternatives of the tests' \<^verbatim>\<open>sum_type<int,char>\<close>: moving a trivial value copies it.
  Two instances for the examples, \<^verbatim>\<open>{type<int>, 5}\<close> and \<^verbatim>\<open>{type<char>, 'b'}\<close>.
\<close>

definition trivial_alternatives :: "payload alternatives" where
  "trivial_alternatives =
     \<lparr>alt_move_ctor = (\<lambda>i v. (Inr v, v)), alt_move_assign = (\<lambda>i old v. (None, v, v))\<rparr>"

definition sum_store_ex :: "payload sum_store" where
  "sum_store_ex =
     [1 \<mapsto> \<lparr>tag = 0, storage = Int_val 5\<rparr>, 2 \<mapsto> \<lparr>tag = 1, storage = Char_val CHR ''b''\<rparr>]"

section \<open>Properties of maybe\<close>

text \<open>
  Claim C9. For every \<^verbatim>\<open>maybe<A>\<close> object \<open>m\<close>, \<^verbatim>\<open>operator*\<close> and \<^verbatim>\<open>operator->\<close> throw
  \<^verbatim>\<open>std::logic_error\<close> when \<open>m\<close> is nothing; when \<open>m\<close> holds a value they return a
  reference (a pointer) to the \<^verbatim>\<open>val\<close> member of \<open>m\<close>, through which the contained value is
  read. In both cases the store, and with it \<open>m\<close>, is left as it was: a wrong-state
  access is a guarded exception, not undefined behaviour.
\<close>

theorem maybe_dereference:
  assumes "s this = Some m"
  shows "operator_star this s =
           (if isValid m then Inr (Val_of this)
            else Inl (Logic_error ''Attempting to read the value of Nothing.''), s)
       \<and> operator_arrow this s =
           (if isValid m then Inr (Val_of this)
            else Inl (Logic_error ''Attempting to read teh value of Nothing.''), s)
       \<and> load s (Val_of this) = (case val m of Raw \<Rightarrow> Inl Undefined | Live v \<Rightarrow> Inr v)"
  using assms by (simp add: operator_star_def operator_arrow_def)

theorem maybe_dereference_witness:
  "operator_star 1 store_ex = (Inr (Val_of 1), store_ex)
   \<and> operator_arrow 1 store_ex = (Inr (Val_of 1), store_ex)
   \<and> load store_ex (Val_of 1) = Inr 5
   \<and> is_logic_error (projl (fst (operator_star 2 store_ex)))
   \<and> is_logic_error (projl (fst (operator_arrow 2 store_ex)))
   \<and> snd (operator_star 2 store_ex) = store_ex
   \<and> snd (operator_arrow 2 store_ex) = store_ex"
  using maybe_dereference [of store_ex 1 "\<lparr>val = Live 5, isValid = True\<rparr>"]
        maybe_dereference [of store_ex 2 nothing]
  by (simp add: store_ex_def nothing_def)

text \<open>
  Claim C4. For two \<^verbatim>\<open>maybe<A>\<close> objects, \<^verbatim>\<open>operator==\<close> returns false whenever one is a
  value and the other is nothing, whatever the payload; when both are values it returns
  what \<^verbatim>\<open>A\<close>'s own \<^verbatim>\<open>operator==\<close> returns on the two payloads; two nothings, which carry
  no payload, are equal. \<^verbatim>\<open>operator!=\<close> returns the negation of \<^verbatim>\<open>operator==\<close>.
\<close>

theorem maybe_equality:
  assumes "s m1 = Some a" and "s m2 = Some b" and "wf_maybe a" and "wf_maybe b"
  shows "(isValid a \<noteq> isValid b \<longrightarrow> operator_eq A m1 m2 s = Inr False)
       \<and> (\<forall>x y. isValid a \<and> isValid b \<and> val a = Live x \<and> val b = Live y
             \<longrightarrow> operator_eq A m1 m2 s = Inr (equals A x y))
       \<and> (isValid a \<and> isValid b \<longrightarrow> (\<exists>x y. val a = Live x \<and> val b = Live y))
       \<and> (\<not> isValid a \<and> \<not> isValid b \<longrightarrow> operator_eq A m1 m2 s = Inr True)
       \<and> (\<exists>r. operator_eq A m1 m2 s = Inr r \<and> operator_neq A m1 m2 s = Inr (\<not> r))"
  using assms
  by (auto simp: operator_eq_def operator_neq_def operator_bool_def isValue_def
      operator_star_def wf_maybe_def split: slot.splits)

theorem maybe_equality_witness:
  "operator_eq int_type 1 2 store_ex = Inr False
   \<and> operator_neq int_type 1 2 store_ex = Inr True
   \<and> operator_eq int_type 1 3 store_ex = Inr (equals int_type 5 7)
   \<and> operator_eq int_type 1 3 store_ex = Inr False
   \<and> operator_eq int_type 3 3 store_ex = Inr True
   \<and> operator_eq int_type 2 2 store_ex = Inr True
   \<and> operator_neq int_type 2 2 store_ex = Inr False"
proof -
  let ?five = "\<lparr>val = Live (5::int), isValid = True\<rparr>"
  let ?seven = "\<lparr>val = Live (7::int), isValid = True\<rparr>"
  have s1: "store_ex 1 = Some ?five" and s2: "store_ex 2 = Some nothing"
    and s3: "store_ex 3 = Some ?seven"
    by (simp_all add: store_ex_def)
  have w: "wf_maybe ?five" "wf_maybe ?seven" "wf_maybe (nothing :: int maybe)"
    by (simp_all add: wf_maybe_def nothing_def)
  from maybe_equality [of store_ex 1 ?five 2 nothing int_type]
       maybe_equality [of store_ex 1 ?five 3 ?seven int_type]
       maybe_equality [of store_ex 3 ?seven 3 ?seven int_type]
       maybe_equality [of store_ex 2 nothing 2 nothing int_type]
       s1 s2 s3 w
  show ?thesis
    by (auto simp: nothing_def int_type_def)
qed

text \<open>
  Claim C7. Self-assignment of a \<^verbatim>\<open>maybe\<close>, by copy or by move, returns at the check
  \<^verbatim>\<open>this == &m\<close>: no exception, and the store (the object's flag and value with it) is
  exactly what it was.
\<close>

theorem self_assignment_noop:
  "copy_assign A x x s = (None, s) \<and> move_assign A x x s = (None, s)"
  by (simp add: copy_assign_def move_assign_def)

theorem self_assignment_noop_witness:
  "store_ex 1 = Some \<lparr>val = Live 5, isValid = True\<rparr>
   \<and> copy_assign int_type 1 1 store_ex = (None, store_ex)
   \<and> move_assign int_type 1 1 store_ex = (None, store_ex)"
  using self_assignment_noop [of int_type 1 store_ex]
  by (simp add: store_ex_def)

text \<open>
  Claim C1, evaluated on \<^verbatim>\<open>maybe::operator=(const maybe&)\<close>: the destination at address 1
  is nothing, the source at address 2 holds a value, and the copy constructor of the
  element type throws. The exception propagates, and the destination, which reported
  nothing before the call, reports a value afterwards although its storage holds no live
  object: it has not kept its original alternative, and \<^verbatim>\<open>operator*\<close> now hands out a
  reference to raw storage.
\<close>

theorem copy_assign_throw_no_rollback:
  "store_throw 1 = Some \<lparr>val = Raw, isValid = False\<rparr>
   \<and> store_throw 2 = Some \<lparr>val = Live 7, isValid = True\<rparr>
   \<and> map_option isValue (store_throw 1) = Some False
   \<and> fst (copy_assign copy_throw_type 1 2 store_throw) = Some Alt_exception
   \<and> snd (copy_assign copy_throw_type 1 2 store_throw) 1 = Some \<lparr>val = Raw, isValid = True\<rparr>
   \<and> map_option isValue (snd (copy_assign copy_throw_type 1 2 store_throw) 1) = Some True
   \<and> fst (operator_star 1 (snd (copy_assign copy_throw_type 1 2 store_throw))) = Inr (Val_of 1)
   \<and> load (snd (copy_assign copy_throw_type 1 2 store_throw)) (Val_of 1) = Inl Undefined"
  by (simp add: copy_assign_def copy_throw_type_def store_throw_def nothing_def
      destroy_if_valid_def isValue_def operator_star_def)

section \<open>Properties of the unordered-map functor\<close>

text \<open>
  With an accumulator whose keys are disjoint from those of \<open>m\<close>, every \<^verbatim>\<open>emplace\<close> of the
  loop inserts.
\<close>

lemma fold_emplace:
  "distinct (map fst acc @ map fst m) \<Longrightarrow>
   fold (\<lambda>kv rm. emplace (fst kv) (f (snd kv)) rm) m acc
     = acc @ map (\<lambda>kv. (fst kv, f (snd kv))) m"
proof (induction m arbitrary: acc)
  case Nil
  then show ?case by simp
next
  case (Cons e m)
  have "map_of acc (fst e) = None"
    using Cons.prems by (auto simp: map_of_eq_None_iff)
  then have step: "emplace (fst e) (f (snd e)) acc = acc @ [(fst e, f (snd e))]"
    by (simp add: emplace_def)
  have "distinct (map fst (acc @ [(fst e, f (snd e))]) @ map fst m)"
    using Cons.prems by auto
  from Cons.IH [OF this] show ?case
    by (simp add: step)
qed

text \<open>With unique keys, \<^verbatim>\<open>m[kv.first] = v\<close> assigns to the element being visited.\<close>

lemma subscript_assign_nth:
  "distinct (map fst m) \<Longrightarrow> i < length m \<Longrightarrow>
   subscript_assign (fst (m ! i)) v m = m[i := (fst (m ! i), v)]"
proof (induction m arbitrary: i)
  case Nil
  then show ?case by simp
next
  case (Cons e m)
  show ?case
  proof (cases i)
    case 0
    then show ?thesis by simp
  next
    case (Suc j)
    with Cons.prems have "j < length m" and "fst (m ! j) \<in> fst ` set m"
      by auto
    with Cons.prems have "fst e \<noteq> fst (m ! j)"
      by auto
    with Cons Suc show ?thesis by simp
  qed
qed

text \<open>The in-place loop after \<open>j\<close> iterations: the first \<open>j\<close> values are mapped.\<close>

lemma map_endo_prefix:
  "distinct (map fst m) \<Longrightarrow> j \<le> length m \<Longrightarrow>
   fold (\<lambda>i m'. subscript_assign (fst (m' ! i)) (f (snd (m' ! i))) m') [0..<j] m
     = map (\<lambda>kv. (fst kv, f (snd kv))) (take j m) @ drop j m"
proof (induction j)
  case 0
  then show ?case by simp
next
  case (Suc j)
  let ?g = "\<lambda>kv. (fst kv, f (snd kv))"
  let ?m' = "map ?g (take j m) @ drop j m"
  from Suc.prems have j: "j < length m" by simp
  have IH: "fold (\<lambda>i m'. subscript_assign (fst (m' ! i)) (f (snd (m' ! i))) m') [0..<j] m = ?m'"
    using Suc by simp
  have keys: "map fst ?m' = map fst m"
  proof -
    have "map fst ?m' = map fst (take j m) @ map fst (drop j m)"
      by (simp add: comp_def)
    also have "\<dots> = map fst m"
      by (metis append_take_drop_id map_append)
    finally show ?thesis .
  qed
  have len: "length ?m' = length m" using j by simp
  have nth: "?m' ! j = m ! j"
    using j by (simp add: nth_append)
  have d: "distinct (map fst ?m')"
    using Suc.prems(1) by (simp only: keys)
  have l: "j < length ?m'"
    using j by (simp only: len)
  have "subscript_assign (fst (?m' ! j)) (f (snd (?m' ! j))) ?m'
          = ?m'[j := (fst (?m' ! j), f (snd (?m' ! j)))]"
    by (rule subscript_assign_nth [OF d l])
  also have "\<dots> = map ?g (take j m) @ (drop j m)[0 := ?g (m ! j)]"
    using j by (simp add: nth list_update_append)
  also have "\<dots> = map ?g (take (Suc j) m) @ drop (Suc j) m"
    using j by (simp add: take_Suc_conv_app_nth Cons_nth_drop_Suc [symmetric])
  finally show ?case
    by (simp add: IH)
qed

lemma map_endo_eq:
  "distinct (map fst m) \<Longrightarrow> map_endo f m = map (\<lambda>kv. (fst kv, f (snd kv))) m"
  using map_endo_prefix [of m "length m" f] by (simp add: map_endo_def)

lemma map_of_mapped:
  "map_of (map (\<lambda>kv. (fst kv, f (snd kv))) m) k = map_option f (map_of m k)"
  by (induction m) auto

lemma keys_mapped: "map fst (map (\<lambda>kv. (fst kv, f (snd kv))) m) = map fst m"
  by (simp add: comp_def)

text \<open>
  Claim C10. For every unordered map \<open>m\<close> (its keys unique) and every function on its
  mapped values, each overload of \<^verbatim>\<open>functor<unordered_map>::map\<close> returns a map with unique
  keys whose key set is exactly that of \<open>m\<close> and in which every key is associated with
  the function applied to the value \<open>m\<close> has at that key; the overload taking \<open>m\<close> by
  const reference leaves \<open>m\<close> unchanged.
\<close>

theorem functor_map_values:
  assumes "unique_keys m"
  shows "unique_keys (fst (map_const_ref f m))
       \<and> set (map fst (fst (map_const_ref f m))) = set (map fst m)
       \<and> (\<forall>k. map_of (fst (map_const_ref f m)) k = map_option f (map_of m k))
       \<and> snd (map_const_ref f m) = m
       \<and> unique_keys (map_rvalue f m)
       \<and> set (map fst (map_rvalue f m)) = set (map fst m)
       \<and> (\<forall>k. map_of (map_rvalue f m) k = map_option f (map_of m k))
       \<and> unique_keys (map_endo g m)
       \<and> set (map fst (map_endo g m)) = set (map fst m)
       \<and> (\<forall>k. map_of (map_endo g m) k = map_option g (map_of m k))"
proof -
  have d: "distinct (map fst m)"
    using assms by (simp add: unique_keys_def)
  have c: "fst (map_const_ref f m) = map (\<lambda>kv. (fst kv, f (snd kv))) m"
    and r: "map_rvalue f m = map (\<lambda>kv. (fst kv, f (snd kv))) m"
    using d fold_emplace [of "[]" m f] by (simp_all add: map_const_ref_def map_rvalue_def)
  have e: "map_endo g m = map (\<lambda>kv. (fst kv, g (snd kv))) m"
    by (rule map_endo_eq [OF d])
  have "snd (map_const_ref f m) = m"
    by (simp add: map_const_ref_def)
  then show ?thesis
    using d by (simp only: c r e unique_keys_def keys_mapped map_of_mapped simp_thms)
qed

theorem functor_map_values_witness:
  "unique_keys umap_ex
   \<and> map_of umap_ex ''b'' = Some 2
   \<and> map_of (fst (map_const_ref (\<lambda>v. 1 < v) umap_ex)) ''b'' = Some True
   \<and> snd (map_const_ref (\<lambda>v. 1 < v) umap_ex) = umap_ex
   \<and> map_of (map_rvalue (\<lambda>v. 1 < v) umap_ex) ''a'' = Some False
   \<and> map_of (map_endo (\<lambda>v. v * 2) umap_ex) ''b'' = Some 4
   \<and> set (map fst (map_endo (\<lambda>v. v * 2) umap_ex)) = {''a'', ''b'', ''c''}"
proof -
  have u: "unique_keys umap_ex"
    by (simp add: unique_keys_def umap_ex_def)
  have a: "map_of umap_ex ''a'' = Some 1" and b: "map_of umap_ex ''b'' = Some 2"
    by (simp_all add: umap_ex_def)
  have k: "fst ` set umap_ex = {''a'', ''b'', ''c''}"
    by (simp add: umap_ex_def)
  from functor_map_values [OF u, of "\<lambda>v. 1 < v" "\<lambda>v. v * 2"] show ?thesis
    using u by (simp add: a b k)
qed

section \<open>Properties of the sum-type engine\<close>

lemma index_of_nth:
  "distinct alts \<Longrightarrow> i < length alts \<Longrightarrow> index_of (alts ! i) alts = Some i"
proof (induction alts arbitrary: i)
  case Nil
  then show ?case by simp
next
  case (Cons U Us)
  show ?case
  proof (cases i)
    case 0
    then show ?thesis by simp
  next
    case (Suc j)
    with Cons.prems have "j < length Us" and "Us ! j \<noteq> U"
      by auto
    with Cons Suc show ?thesis by simp
  qed
qed

lemma index_of_member:
  "T \<in> set alts \<Longrightarrow> \<exists>i. index_of T alts = Some i \<and> i < length alts \<and> alts ! i = T"
  by (induction alts) auto

lemma positions_iff: "k \<in> set (positions c cs) \<longleftrightarrow> k < length cs \<and> cs ! k = c"
  by (auto simp: positions_def)

lemma positions_single:
  assumes "positions c cs = [k]"
  shows "k < length cs" and "cs ! k = c"
    and "\<And>j. j < length cs \<Longrightarrow> cs ! j = c \<Longrightarrow> j = k"
proof -
  have mem: "j \<in> set (positions c cs) \<longleftrightarrow> j = k" for j
    using assms by simp
  from mem [of k] show "k < length cs" and "cs ! k = c"
    by (simp_all add: positions_iff)
  fix j assume "j < length cs" and "cs ! j = c"
  then have "j \<in> set (positions c cs)"
    by (simp add: positions_iff)
  then show "j = k"
    by (simp only: mem)
qed

lemma handler_for_explicit:
  "length (positions (Case T) cs) = 1 \<Longrightarrow> handler_for cs T = Inr (hd (positions (Case T) cs))"
  by (cases "positions (Case T) cs") (auto simp: handler_for_def split: list.splits)

lemma complete_coverage:
  "complete_handlers alts cs \<Longrightarrow> coverage cs alts = None"
  by (induction alts) (auto simp: complete_handlers_def handler_for_explicit)

lemma coverage_resolves:
  "coverage cs alts = None \<Longrightarrow> T \<in> set alts \<Longrightarrow> \<exists>k. handler_for cs T = Inr k"
  by (induction alts) (auto split: sum.splits)

lemma handler_for_fallback:
  assumes "handler_for cs T = Inr k" and "positions (Case T) cs = []"
  shows "positions Otherwise cs = [k]"
  using assms by (auto simp: handler_for_def split: list.splits)

text \<open>
  Claim C3. For every sum-type instance with active tag \<open>i\<close> and every complete handler
  set (one handler per alternative), \<^verbatim>\<open>match\<close> makes exactly one invocation: of the one
  handler whose parameter type is alternative \<open>i\<close>, on the payload, and it returns that
  handler's result.
\<close>

theorem match_dispatch:
  assumes "distinct alts" and "tag x < length alts" and "complete_handlers alts (map fst hs)"
  shows "\<exists>k<length hs. fst (hs ! k) = Case (alts ! tag x)
           \<and> (\<forall>j<length hs. fst (hs ! j) = Case (alts ! tag x) \<longrightarrow> j = k)
           \<and> match alts hs x = Inr ([(k, storage x)], snd (hs ! k) (storage x))"
proof -
  let ?cs = "map fst hs"
  let ?T = "alts ! tag x"
  have "?T \<in> set alts"
    using assms(2) by simp
  with assms(3) have one: "length (positions (Case ?T) ?cs) = 1"
    by (simp add: complete_handlers_def list_all_iff)
  then obtain k where k: "positions (Case ?T) ?cs = [k]"
    by (cases "positions (Case ?T) ?cs") auto
  have kl: "k < length hs"
    using positions_single(1) [OF k] by simp
  have kc: "fst (hs ! k) = Case ?T"
    using positions_single(2) [OF k] kl by simp
  have uniq: "\<forall>j<length hs. fst (hs ! j) = Case ?T \<longrightarrow> j = k"
  proof (intro allI impI)
    fix j assume "j < length hs" and "fst (hs ! j) = Case ?T"
    then show "j = k"
      using positions_single(3) [OF k, of j] by simp
  qed
  have "handler_for ?cs ?T = Inr k"
    using handler_for_explicit [OF one] k by simp
  then have "match alts hs x = Inr ([(k, storage x)], snd (hs ! k) (storage x))"
    using assms(1,2) complete_coverage [OF assms(3)] by (simp add: match_def)
  with kl kc uniq show ?thesis by blast
qed

text \<open>
  Concretely: a sum type over \<^verbatim>\<open>{int, char}\<close> constructed active as \<^verbatim>\<open>int\<close> with value 5;
  \<^verbatim>\<open>match(wasInt, wasNotChar)\<close> invokes the first handler on 5 and nothing else.
\<close>

theorem match_dispatch_witness:
  "distinct int_char \<and> complete_handlers int_char (map fst int_char_handlers)
   \<and> construct int_char ''int'' (Int_val 5) = Inr \<lparr>tag = 0, storage = Int_val 5\<rparr>
   \<and> match int_char int_char_handlers \<lparr>tag = 0, storage = Int_val 5\<rparr>
       = Inr ([(0, Int_val 5)], wasInt (Int_val 5))
   \<and> wasInt (Int_val 5)"
proof -
  let ?x = "\<lparr>tag = 0, storage = Int_val 5\<rparr>"
  have d: "distinct int_char"
    by (simp add: int_char_def)
  have t: "tag ?x < length int_char"
    by (simp add: int_char_def)
  have c: "complete_handlers int_char (map fst int_char_handlers)"
    by code_simp
  have n: "construct int_char ''int'' (Int_val 5) = Inr ?x"
    by (simp add: construct_def int_char_def)
  from match_dispatch [OF d t c] obtain k
    where u: "\<forall>j<length int_char_handlers.
                fst (int_char_handlers ! j) = Case (int_char ! tag ?x) \<longrightarrow> j = k"
      and m: "match int_char int_char_handlers ?x
                = Inr ([(k, storage ?x)], snd (int_char_handlers ! k) (storage ?x))"
    by blast
  have "0 = k"
    using u [rule_format, of 0] by (simp add: int_char_def int_char_handlers_def)
  with m have "match int_char int_char_handlers ?x = Inr ([(0, Int_val 5)], wasInt (Int_val 5))"
    by (auto simp: int_char_handlers_def)
  with d c n show ?thesis
    by simp
qed

text \<open>
  Claim C6. For every sum-type instance whose active alternative has no explicit handler
  in a handler set that passes the coverage check, \<^verbatim>\<open>match\<close> invokes the fallback
  ("otherwise") handler, once, and returns its result.
\<close>

theorem match_otherwise:
  assumes "distinct alts" and "tag x < length alts"
    and "coverage (map fst hs) alts = None"
    and "positions (Case (alts ! tag x)) (map fst hs) = []"
  shows "\<exists>k<length hs. fst (hs ! k) = Otherwise
           \<and> match alts hs x = Inr ([(k, storage x)], snd (hs ! k) (storage x))"
proof -
  let ?cs = "map fst hs"
  let ?T = "alts ! tag x"
  have "?T \<in> set alts"
    using assms(2) by simp
  from coverage_resolves [OF assms(3) this]
  obtain k where h: "handler_for ?cs ?T = Inr k" ..
  have o: "positions Otherwise ?cs = [k]"
    by (rule handler_for_fallback [OF h assms(4)])
  have kl: "k < length hs"
    using positions_single(1) [OF o] by simp
  have "fst (hs ! k) = Otherwise"
    using positions_single(2) [OF o] kl by simp
  moreover note kl
  moreover have "match alts hs x = Inr ([(k, storage x)], snd (hs ! k) (storage x))"
    using assms(1,2,3) h by (simp add: match_def)
  ultimately show ?thesis by blast
qed

text \<open>
  Concretely: a sum type over \<^verbatim>\<open>{A, B, C}\<close> constructed active as \<^verbatim>\<open>B\<close>;
  \<^verbatim>\<open>match(handler_for_A, otherwise_handler)\<close> invokes the second handler, the fallback, and
  returns its result 1.
\<close>

theorem match_otherwise_witness:
  "distinct abc \<and> coverage (map fst a_otherwise_handlers) abc = None
   \<and> positions (Case ''B'') (map fst a_otherwise_handlers) = []
   \<and> construct abc ''B'' Empty_struct = Inr \<lparr>tag = 1, storage = Empty_struct\<rparr>
   \<and> fst (a_otherwise_handlers ! 1) = Otherwise
   \<and> match abc a_otherwise_handlers \<lparr>tag = 1, storage = Empty_struct\<rparr>
       = Inr ([(1, Empty_struct)], 1)"
proof -
  let ?x = "\<lparr>tag = 1, storage = Empty_struct\<rparr>"
  have d: "distinct abc"
    by (simp add: abc_def)
  have t: "tag ?x < length abc"
    by (simp add: abc_def)
  have c: "coverage (map fst a_otherwise_handlers) abc = None"
    by code_simp
  have b: "abc ! tag ?x = ''B''"
    by (simp add: abc_def)
  have p: "positions (Case ''B'') (map fst a_otherwise_handlers) = []"
    by code_simp
  have n: "construct abc ''B'' Empty_struct = Inr ?x"
    by (simp add: construct_def abc_def)
  have f: "fst (a_otherwise_handlers ! 1) = Otherwise"
    by (simp add: a_otherwise_handlers_def)
  from match_otherwise [OF d t c] p b obtain k
    where kl: "k < length a_otherwise_handlers"
      and ko: "fst (a_otherwise_handlers ! k) = Otherwise"
      and m: "match abc a_otherwise_handlers ?x
                = Inr ([(k, storage ?x)], snd (a_otherwise_handlers ! k) (storage ?x))"
    by auto
  from kl have "k = 0 \<or> k = 1"
    by (auto simp: a_otherwise_handlers_def)
  with ko have "k = 1"
    by (auto simp: a_otherwise_handlers_def)
  with m have "match abc a_otherwise_handlers ?x = Inr ([(1, Empty_struct)], 1)"
    by (simp add: a_otherwise_handlers_def)
  with d c p n f show ?thesis
    by simp
qed

text \<open>
  Claim C5. For every alternative index \<open>i\<close> of a sum type over distinct alternatives
  \<open>T\<^sub>0, \<dots>, T\<^sub>n\<^sub>-\<^sub>1\<close>, the instance constructed with tag \<open>T\<^sub>i\<close> answers \<^verbatim>\<open>is<T\<^sub>i>()\<close> with
  true and \<^verbatim>\<open>is<T\<^sub>j>()\<close> with false for every \<open>j \<noteq> i\<close>: \<^verbatim>\<open>is<T>()\<close> is true if and only if
  \<open>T\<close> is the active alternative.
\<close>

theorem is_alt_active:
  assumes "distinct alts" and "i < length alts"
  shows "construct alts (alts ! i) v = Inr \<lparr>tag = i, storage = v\<rparr>
       \<and> is_alt alts (alts ! i) \<lparr>tag = i, storage = v\<rparr> = Inr True
       \<and> (\<forall>j<length alts. j \<noteq> i \<longrightarrow> is_alt alts (alts ! j) \<lparr>tag = i, storage = v\<rparr> = Inr False)
       \<and> (\<forall>T\<in>set alts. is_alt alts T \<lparr>tag = i, storage = v\<rparr> = Inr (T = alts ! i))"
proof -
  have "\<forall>T\<in>set alts. is_alt alts T \<lparr>tag = i, storage = v\<rparr> = Inr (T = alts ! i)"
  proof
    fix T assume "T \<in> set alts"
    then obtain j where j: "index_of T alts = Some j" "j < length alts" "alts ! j = T"
      using index_of_member by metis
    then have "(j = i) = (T = alts ! i)"
      using assms nth_eq_iff_index_eq by blast
    then show "is_alt alts T \<lparr>tag = i, storage = v\<rparr> = Inr (T = alts ! i)"
      using assms(1) j by (auto simp: is_alt_def)
  qed
  moreover have "\<forall>j<length alts. j \<noteq> i \<longrightarrow> is_alt alts (alts ! j) \<lparr>tag = i, storage = v\<rparr> = Inr False"
    using assms by (auto simp: is_alt_def index_of_nth)
  ultimately show ?thesis
    using assms by (simp add: construct_def is_alt_def index_of_nth)
qed

theorem is_alt_active_witness:
  "distinct int_char
   \<and> construct int_char ''char'' (Char_val CHR ''b'') = Inr \<lparr>tag = 1, storage = Char_val CHR ''b''\<rparr>
   \<and> is_alt int_char ''char'' \<lparr>tag = 1, storage = Char_val CHR ''b''\<rparr> = Inr True
   \<and> is_alt int_char ''int'' \<lparr>tag = 1, storage = Char_val CHR ''b''\<rparr> = Inr False"
proof -
  have d: "distinct int_char"
    by (simp add: int_char_def)
  have l: "1 < length int_char"
    by (simp add: int_char_def)
  have m: "''int'' \<in> set int_char"
    by (simp add: int_char_def)
  from is_alt_active [OF d l, of "Char_val CHR ''b''"]
  have "construct int_char (int_char ! 1) (Char_val CHR ''b'') = Inr \<lparr>tag = 1, storage = Char_val CHR ''b''\<rparr>"
    and "is_alt int_char (int_char ! 1) \<lparr>tag = 1, storage = Char_val CHR ''b''\<rparr> = Inr True"
    and "\<forall>T\<in>set int_char. is_alt int_char T \<lparr>tag = 1, storage = Char_val CHR ''b''\<rparr> = Inr (T = int_char ! 1)"
    by blast+
  moreover have "int_char ! 1 = ''char''"
    by (simp add: int_char_def)
  ultimately show ?thesis
    using d m by simp
qed

section \<open>Moving from an instance\<close>

text \<open>
  Whatever a move from the sum-type instance at \<open>p\<close> does (it succeeds, the alternative's
  constructor or assignment operator throws, or the call is ill-formed), the instance at
  \<open>p\<close> keeps its tag.
\<close>

lemma sum_move_construct_source:
  "t p = Some x \<Longrightarrow> \<exists>y. snd (sum_move_construct L c p t) p = Some y \<and> tag y = tag x"
  by (auto simp: sum_move_construct_def split: option.splits prod.splits sum.splits)

lemma sum_move_assign_source:
  "t p = Some x \<Longrightarrow> \<exists>y. snd (sum_move_assign L d p t) p = Some y \<and> tag y = tag x"
  by (auto simp: sum_move_assign_def split: option.splits prod.splits sum.splits)

lemma is_alt_of_tag:
  "distinct alts \<Longrightarrow> tag y < length alts \<Longrightarrow> is_alt alts (alts ! tag y) y = Inr True"
  by (simp add: is_alt_def index_of_nth)

text \<open>
  The move constructor of \<^verbatim>\<open>maybe\<close>, when it completes: a source that held a value has
  its flag cleared and keeps what \<^verbatim>\<open>A\<close>'s move constructor left in it; a source that held
  no value is untouched.
\<close>

lemma maybe_move_construct_source:
  assumes "s m = Some src" and "fst (move_construct A c m s) = None"
  shows "map_option isValue (snd (move_construct A c m s) m) = Some False"
    and "\<not> isValue src \<Longrightarrow> snd (move_construct A c m s) m = Some src"
    and "isValue src \<Longrightarrow> val src = Live v \<Longrightarrow>
           map_option val (snd (move_construct A c m s) m) = Some (Live (snd (move_ctor A v)))"
  using assms
  by (auto simp: move_construct_def isValue_def
      split: option.splits slot.splits prod.splits sum.splits if_splits)

lemma maybe_move_assign_source:
  assumes "s m = Some src" and "d \<noteq> m" and "fst (move_assign A d m s) = None"
  shows "map_option isValue (snd (move_assign A d m s) m) = Some False"
    and "\<not> isValue src \<Longrightarrow> snd (move_assign A d m s) m = Some src"
    and "isValue src \<Longrightarrow> val src = Live v \<Longrightarrow>
           map_option val (snd (move_assign A d m s) m) = Some (Live (snd (move_ctor A v)))"
  using assms
  by (auto simp: move_assign_def destroy_if_valid_def isValue_def Let_def
      split: option.splits slot.splits prod.splits sum.splits if_splits)

text \<open>
  A counterexample to claim C2 as stated: the \<^verbatim>\<open>maybe\<close> at address 1 holds the value 5;
  after it has been moved from, by the move constructor (into fresh storage at address 0)
  or by move assignment (into the object at address 2), \<^verbatim>\<open>isValue()\<close> is false: it no
  longer reports the alternative that was active.
\<close>

theorem move_source_tag_counterexample:
  "map_option isValue (store_ex 1) = Some True
   \<and> fst (move_construct int_type 0 1 store_ex) = None
   \<and> map_option isValue (snd (move_construct int_type 0 1 store_ex) 1) = Some False
   \<and> fst (move_assign int_type 2 1 store_ex) = None
   \<and> map_option isValue (snd (move_assign int_type 2 1 store_ex) 1) = Some False"
  by (simp add: move_construct_def move_assign_def int_type_def store_ex_def nothing_def
      destroy_if_valid_def isValue_def)

text \<open>
  Claim C2, amended. For every sum-type instance moved from, by move construction or by
  move assignment, the source's tag is left unchanged: after the move the source still
  reports its original active alternative (\<^verbatim>\<open>is<T>()\<close> for the previously active \<open>T\<close> still
  returns true). The \<^verbatim>\<open>maybe\<close> wrapper is the exception: when a \<^verbatim>\<open>maybe\<close> that holds a value
  is moved from, by move construction or by move assignment into another object, and no
  exception propagates, \<^verbatim>\<open>m.isValid = false\<close> clears its flag, so that \<^verbatim>\<open>isValue()\<close> is
  false afterwards, while its storage keeps the value in the state \<^verbatim>\<open>A\<close>'s move constructor
  left it in; a \<^verbatim>\<open>maybe\<close> that holds no value is left unchanged by the move.

  The four groups of conjuncts are independent: the sum-type move constructor, the
  sum-type move assignment, the move constructor of \<^verbatim>\<open>maybe\<close> and its move assignment,
  each under the success of that one operation only.
\<close>

theorem moved_from_source_tag:
  assumes "t p = Some x" and "distinct alts" and "tag x < length alts"
    and "s m = Some src"
  shows "map_option tag (snd (sum_move_construct L c' p t) p) = Some (tag x)
       \<and> map_option (is_alt alts (alts ! tag x)) (snd (sum_move_construct L c' p t) p)
           = Some (Inr True)
       \<and> map_option tag (snd (sum_move_assign L d' p t) p) = Some (tag x)
       \<and> map_option (is_alt alts (alts ! tag x)) (snd (sum_move_assign L d' p t) p)
           = Some (Inr True)
       \<and> (fst (move_construct A c m s) = None \<longrightarrow>
            map_option isValue (snd (move_construct A c m s) m) = Some False
          \<and> (\<not> isValue src \<longrightarrow> snd (move_construct A c m s) m = Some src)
          \<and> (\<forall>v. isValue src \<and> val src = Live v \<longrightarrow>
                map_option val (snd (move_construct A c m s) m)
                  = Some (Live (snd (move_ctor A v)))))
       \<and> (d \<noteq> m \<and> fst (move_assign A d m s) = None \<longrightarrow>
            map_option isValue (snd (move_assign A d m s) m) = Some False
          \<and> (\<not> isValue src \<longrightarrow> snd (move_assign A d m s) m = Some src)
          \<and> (\<forall>v. isValue src \<and> val src = Live v \<longrightarrow>
                map_option val (snd (move_assign A d m s) m)
                  = Some (Live (snd (move_ctor A v)))))"
proof -
  obtain y where y: "snd (sum_move_construct L c' p t) p = Some y" "tag y = tag x"
    using sum_move_construct_source [of t p x L c'] assms(1) by blast
  obtain z where z: "snd (sum_move_assign L d' p t) p = Some z" "tag z = tag x"
    using sum_move_assign_source [of t p x L d'] assms(1) by blast
  have "is_alt alts (alts ! tag x) y = Inr True"
    using is_alt_of_tag [of alts y] assms(2,3) y(2) by simp
  moreover have "is_alt alts (alts ! tag x) z = Inr True"
    using is_alt_of_tag [of alts z] assms(2,3) z(2) by simp
  ultimately have sum_part:
    "map_option tag (snd (sum_move_construct L c' p t) p) = Some (tag x)
     \<and> map_option (is_alt alts (alts ! tag x)) (snd (sum_move_construct L c' p t) p)
         = Some (Inr True)
     \<and> map_option tag (snd (sum_move_assign L d' p t) p) = Some (tag x)
     \<and> map_option (is_alt alts (alts ! tag x)) (snd (sum_move_assign L d' p t) p)
         = Some (Inr True)"
    by (simp add: y z)
  have construct_part:
    "fst (move_construct A c m s) = None \<longrightarrow>
       map_option isValue (snd (move_construct A c m s) m) = Some False
     \<and> (\<not> isValue src \<longrightarrow> snd (move_construct A c m s) m = Some src)
     \<and> (\<forall>v. isValue src \<and> val src = Live v \<longrightarrow>
           map_option val (snd (move_construct A c m s) m)
             = Some (Live (snd (move_ctor A v))))"
    using maybe_move_construct_source [of s m src A c] assms(4) by blast
  have assign_part:
    "d \<noteq> m \<and> fst (move_assign A d m s) = None \<longrightarrow>
       map_option isValue (snd (move_assign A d m s) m) = Some False
     \<and> (\<not> isValue src \<longrightarrow> snd (move_assign A d m s) m = Some src)
     \<and> (\<forall>v. isValue src \<and> val src = Live v \<longrightarrow>
           map_option val (snd (move_assign A d m s) m)
             = Some (Live (snd (move_ctor A v))))"
    using maybe_move_assign_source [of s m src d A] assms(4) by blast
  from sum_part construct_part assign_part show ?thesis
    by (intro conjI) (erule conjE | assumption)+
qed

text \<open>
  Concretely: the \<^verbatim>\<open>sum_type<int,char>\<close> at address 1, active as \<^verbatim>\<open>int\<close>, still answers
  \<^verbatim>\<open>is<int>()\<close> with true after it has been moved from; the \<^verbatim>\<open>maybe<int>\<close> holding 5 at
  address 1 answers \<^verbatim>\<open>isValue()\<close> with false after it has been moved from and keeps 5 in
  its storage; the empty \<^verbatim>\<open>maybe<int>\<close> at address 2 is as it was.
\<close>

theorem moved_from_source_tag_witness:
  "map_option tag (sum_store_ex 1) = Some 0
   \<and> fst (sum_move_construct trivial_alternatives 0 1 sum_store_ex) = None
   \<and> map_option tag (snd (sum_move_construct trivial_alternatives 0 1 sum_store_ex) 1) = Some 0
   \<and> map_option (is_alt int_char ''int'')
         (snd (sum_move_construct trivial_alternatives 0 1 sum_store_ex) 1) = Some (Inr True)
   \<and> fst (sum_move_assign trivial_alternatives 2 1 sum_store_ex) = None
   \<and> map_option tag (snd (sum_move_assign trivial_alternatives 2 1 sum_store_ex) 1) = Some 0
   \<and> map_option (is_alt int_char ''int'')
         (snd (sum_move_assign trivial_alternatives 2 1 sum_store_ex) 1) = Some (Inr True)
   \<and> map_option isValue (store_ex 1) = Some True
   \<and> map_option isValue (snd (move_construct int_type 0 1 store_ex) 1) = Some False
   \<and> map_option val (snd (move_construct int_type 0 1 store_ex) 1) = Some (Live 5)
   \<and> map_option isValue (snd (move_assign int_type 2 1 store_ex) 1) = Some False
   \<and> map_option val (snd (move_assign int_type 2 1 store_ex) 1) = Some (Live 5)
   \<and> store_ex 2 = Some nothing
   \<and> snd (move_construct int_type 0 2 store_ex) 2 = Some nothing
   \<and> snd (move_assign int_type 1 2 store_ex) 2 = Some nothing"
proof -
  let ?five = "\<lparr>val = Live (5::int), isValid = True\<rparr>"
  let ?x = "\<lparr>tag = 0, storage = Int_val 5\<rparr>"
  have t1: "sum_store_ex 1 = Some ?x"
    by (simp add: sum_store_ex_def)
  have d: "distinct int_char" and l: "tag ?x < length int_char"
    and i: "int_char ! 0 = ''int''"
    by (simp_all add: int_char_def)
  have s1: "store_ex 1 = Some ?five" and s2: "store_ex 2 = Some nothing"
    by (simp_all add: store_ex_def)
  have v: "isValue ?five" "val ?five = Live 5" "\<not> isValue (nothing :: int maybe)"
    by (simp_all add: isValue_def nothing_def)
  have ok: "fst (sum_move_construct trivial_alternatives 0 1 sum_store_ex) = None"
    "fst (sum_move_assign trivial_alternatives 2 1 sum_store_ex) = None"
    "fst (move_construct int_type 0 1 store_ex) = None"
    "fst (move_assign int_type 2 1 store_ex) = None"
    "fst (move_construct int_type 0 2 store_ex) = None"
    "fst (move_assign int_type 1 2 store_ex) = None"
    by (simp_all add: sum_move_construct_def sum_move_assign_def trivial_alternatives_def
        sum_store_ex_def move_construct_def move_assign_def int_type_def store_ex_def
        nothing_def destroy_if_valid_def Let_def)
  have n: "(2::nat) \<noteq> 1" "(1::nat) \<noteq> 2"
    by simp_all
  have m5: "snd (move_ctor int_type 5) = 5"
    by (simp add: int_type_def)
  from moved_from_source_tag [of sum_store_ex 1 ?x int_char store_ex 1 ?five
         trivial_alternatives 0 2 int_type 0 2]
       moved_from_source_tag [of sum_store_ex 1 ?x int_char store_ex 2 nothing
         trivial_alternatives 0 2 int_type 0 1]
       t1 d l s1 s2 v ok n
  show ?thesis
    by (simp add: i m5)
qed

end
